theory Spec2Isabelle
  imports Main "HOL-Library.Sublist"
begin

section \<open>The application script \<open>notebooks/apps/hv_obj.py\<close>\<close>

text \<open>
  The script is five statements executed top to bottom:
  \<^verbatim>\<open>
  hv.extension('bokeh')
  df = dd.read_parquet('../data/nyc_taxi_hours.parq/')[['dropoff_x', 'dropoff_y']].persist()
  shaded = datashade(hv.Points(df)).opts(plot=dict(width=800, height=600, bgcolor="black"))
  doc = hv.renderer('bokeh').server_doc(shaded)
  doc.title = 'HoloViews Bokeh App'
  \<close>
  Every call goes to a library (dask, HoloViews, datashader, bokeh) whose code is not part
  of the repository. The embedding keeps the script's own structure: the order of the
  calls, their arguments, the names it binds, and the absence of any handler, so that an
  exception raised by a call ends the run. What the HoloViews calls compute is a parameter
  of the model (\<open>hvlib\<close>); what the dask calls and the extension registry do is modelled
  from the specification and marked so.
\<close>

subsection \<open>Exceptions\<close>

datatype exn =
    DataAccessError
  | KeyError string
  | NameError string
  | NotInitialized string
  | LibraryError string

subsection \<open>Tabular dataset and filesystem\<close>

text \<open>
  A partitioned table of rows with named columns. A row maps column names to values;
  the type of values is left open, the script never computes with them.
\<close>

record 'v table =
  columns :: "string list"
  partitions :: "(string \<rightharpoonup> 'v) list list"

definition nrows :: "'v table \<Rightarrow> nat" where
  "nrows t = sum_list (map length (partitions t))"

definition wf_table :: "'v table \<Rightarrow> bool" where
  "wf_table t = list_all (list_all (\<lambda>r. dom r = set (columns t))) (partitions t)"

datatype 'v entry = Dataset "'v table" | Malformed

type_synonym path = string

subsection \<open>Plot options, documents, events\<close>

datatype optval = OInt int | OStr string

record 'd document =
  title :: string
  body :: 'd

datatype event =
    Ev_extension string
  | Ev_read_parquet path
  | Ev_getitem "string list"
  | Ev_persist
  | Ev_Points
  | Ev_datashade
  | Ev_opts "(string \<times> optval) list"
  | Ev_renderer string
  | Ev_server_doc
  | Ev_set_title string

subsection \<open>The HoloViews calls, as parameters\<close>

text \<open>
  \<open>'h\<close> is the type of HoloViews objects, \<open>'d\<close> the content of a bokeh document.
  Each call either returns or raises; the message of the exception is the library's.
\<close>

record ('v, 'h, 'd) hvlib =
  lib_load_backend :: "string \<Rightarrow> string + unit"
  lib_Points :: "'v table \<Rightarrow> string + 'h"
  lib_datashade :: "'h \<Rightarrow> string + 'h"
  lib_opts :: "'h \<Rightarrow> (string \<times> optval) list \<Rightarrow> string + 'h"
  lib_server_doc :: "string \<Rightarrow> 'h \<Rightarrow> string + 'd document"

subsection \<open>Interpreter state\<close>

text \<open>
  The module namespace (\<open>df\<close>, \<open>shaded\<close>, \<open>doc\<close>; \<open>None\<close> is an unbound name), the
  filesystem, the registry of initialised rendering extensions, and the calls made so far.
\<close>

record ('v, 'h, 'd) state =
  fs :: "path \<Rightarrow> 'v entry option"
  backends :: "string list"
  trace :: "event list"
  df :: "'v table option"
  shaded :: "'h option"
  doc :: "'d document option"

definition init :: "(path \<Rightarrow> 'v entry option) \<Rightarrow> ('v, 'h, 'd) state" where
  "init f = \<lparr>fs = f, backends = [], trace = [], df = None, shaded = None, doc = None\<rparr>"

type_synonym ('s, 'a) prog = "'s \<Rightarrow> (exn + 'a) \<times> 's"

text \<open>Sequencing inside one statement: an exception skips the rest.\<close>

definition bindp :: "('s, 'a) prog \<Rightarrow> ('a \<Rightarrow> ('s, 'b) prog) \<Rightarrow> ('s, 'b) prog" where
  "bindp m k s = (case m s of (Inl e, s') \<Rightarrow> (Inl e, s') | (Inr a, s') \<Rightarrow> k a s')"

text \<open>Statements of a module run in order; the first uncaught exception ends the run.\<close>

fun run_stmts :: "('s, unit) prog list \<Rightarrow> ('s, unit) prog" where
  "run_stmts [] s = (Inr (), s)"
| "run_stmts (m # ms) s =
     (case m s of (Inl e, s') \<Rightarrow> (Inl e, s') | (Inr u, s') \<Rightarrow> run_stmts ms s')"

definition logged :: "event \<Rightarrow> ('v, 'h, 'd) state \<Rightarrow> ('v, 'h, 'd) state" where
  "logged ev s = s\<lparr>trace := trace s @ [ev]\<rparr>"

definition lib_result :: "string + 'a \<Rightarrow> exn + 'a" where
  "lib_result r = (case r of Inl msg \<Rightarrow> Inl (LibraryError msg) | Inr a \<Rightarrow> Inr a)"

subsection \<open>The calls of the script\<close>

text \<open>
  Modelled from the spec: \<open>hv.extension\<close> and \<open>hv.renderer\<close> are HoloViews code, not
  in the repository. The spec has the backend "invoked via a named extension identifier"
  and names the failure "rendering engine not initialized": the extension call
  initialises the named backend (or raises what loading it raises), the renderer lookup
  raises \<open>NotInitialized\<close> for a name that was not initialised and returns the renderer
  of that backend otherwise.
\<close>

definition hv_extension :: "('v, 'h, 'd) hvlib \<Rightarrow> string \<Rightarrow> (('v, 'h, 'd) state, unit) prog" where
  "hv_extension L name s =
     (case lib_load_backend L name of
        Inl msg \<Rightarrow> (Inl (LibraryError msg), logged (Ev_extension name) s)
      | Inr u \<Rightarrow> (Inr (), (logged (Ev_extension name) s)\<lparr>backends := name # backends s\<rparr>))"

definition hv_renderer :: "string \<Rightarrow> (('v, 'h, 'd) state, string) prog" where
  "hv_renderer name s =
     (if name \<in> set (backends s) then (Inr name, logged (Ev_renderer name) s)
      else (Inl (NotInitialized name), logged (Ev_renderer name) s))"

text \<open>
  Modelled from the spec: \<open>dd.read_parquet\<close>, the column selection \<open>[[...]]\<close> and
  \<open>persist\<close> are dask code, not in the repository. Spec 4.1: "given a filesystem path to
  a partitioned columnar dataset, produce an in-memory, column-restricted table", "if
  missing or malformed, fails with a DataAccessError"; a requested column that the table
  does not have is the spec's "schema mismatch", Python's \<open>KeyError\<close>. \<open>persist\<close>
  materialises the table in memory and returns it.
\<close>

definition read_parquet :: "path \<Rightarrow> (('v, 'h, 'd) state, 'v table) prog" where
  "read_parquet p s =
     (case fs s p of
        None \<Rightarrow> (Inl DataAccessError, logged (Ev_read_parquet p) s)
      | Some Malformed \<Rightarrow> (Inl DataAccessError, logged (Ev_read_parquet p) s)
      | Some (Dataset t) \<Rightarrow> (Inr t, logged (Ev_read_parquet p) s))"

definition select_columns :: "'v table \<Rightarrow> string list \<Rightarrow> exn + 'v table" where
  "select_columns t names =
     (case filter (\<lambda>n. n \<notin> set (columns t)) names of
        n # ns \<Rightarrow> Inl (KeyError n)
      | [] \<Rightarrow> Inr \<lparr>columns = names,
                  partitions = map (map (\<lambda>r. r |` set names)) (partitions t)\<rparr>)"

definition getitem :: "'v table \<Rightarrow> string list \<Rightarrow> (('v, 'h, 'd) state, 'v table) prog" where
  "getitem t names s = (select_columns t names, logged (Ev_getitem names) s)"

definition persist :: "'v table \<Rightarrow> (('v, 'h, 'd) state, 'v table) prog" where
  "persist t s = (Inr t, logged Ev_persist s)"

definition hv_Points :: "('v, 'h, 'd) hvlib \<Rightarrow> 'v table \<Rightarrow> (('v, 'h, 'd) state, 'h) prog" where
  "hv_Points L t s = (lib_result (lib_Points L t), logged Ev_Points s)"

definition datashade :: "('v, 'h, 'd) hvlib \<Rightarrow> 'h \<Rightarrow> (('v, 'h, 'd) state, 'h) prog" where
  "datashade L h s = (lib_result (lib_datashade L h), logged Ev_datashade s)"

definition opts :: "('v, 'h, 'd) hvlib \<Rightarrow> 'h \<Rightarrow> (string \<times> optval) list \<Rightarrow> (('v, 'h, 'd) state, 'h) prog" where
  "opts L h plot s = (lib_result (lib_opts L h plot), logged (Ev_opts plot) s)"

definition server_doc :: "('v, 'h, 'd) hvlib \<Rightarrow> string \<Rightarrow> 'h \<Rightarrow> (('v, 'h, 'd) state, 'd document) prog" where
  "server_doc L r h s = (lib_result (lib_server_doc L r h), logged Ev_server_doc s)"

subsection \<open>Names of the module\<close>

definition store_df :: "'v table \<Rightarrow> (('v, 'h, 'd) state, unit) prog" where
  "store_df t s = (Inr (), s\<lparr>df := Some t\<rparr>)"

definition load_df :: "(('v, 'h, 'd) state, 'v table) prog" where
  "load_df s = (case df s of None \<Rightarrow> (Inl (NameError ''df''), s) | Some t \<Rightarrow> (Inr t, s))"

definition store_shaded :: "'h \<Rightarrow> (('v, 'h, 'd) state, unit) prog" where
  "store_shaded h s = (Inr (), s\<lparr>shaded := Some h\<rparr>)"

definition load_shaded :: "(('v, 'h, 'd) state, 'h) prog" where
  "load_shaded s = (case shaded s of None \<Rightarrow> (Inl (NameError ''shaded''), s) | Some h \<Rightarrow> (Inr h, s))"

definition store_doc :: "'d document \<Rightarrow> (('v, 'h, 'd) state, unit) prog" where
  "store_doc d s = (Inr (), s\<lparr>doc := Some d\<rparr>)"

text \<open>\<open>doc.title = v\<close>: the attribute of the object that \<open>doc\<close> names is overwritten.\<close>

definition set_doc_title :: "string \<Rightarrow> (('v, 'h, 'd) state, unit) prog" where
  "set_doc_title v s =
     (case doc s of
        None \<Rightarrow> (Inl (NameError ''doc''), s)
      | Some d \<Rightarrow> (Inr (), (logged (Ev_set_title v) s)\<lparr>doc := Some (d\<lparr>title := v\<rparr>)\<rparr>))"

subsection \<open>The five statements\<close>

definition stmt_extension :: "('v, 'h, 'd) hvlib \<Rightarrow> (('v, 'h, 'd) state, unit) prog" where
  "stmt_extension L = hv_extension L ''bokeh''"

definition stmt_df :: "(('v, 'h, 'd) state, unit) prog" where
  "stmt_df =
     bindp (read_parquet ''../data/nyc_taxi_hours.parq/'') (\<lambda>t0.
     bindp (getitem t0 [''dropoff_x'', ''dropoff_y'']) (\<lambda>t1.
     bindp (persist t1) store_df))"

definition stmt_shaded :: "('v, 'h, 'd) hvlib \<Rightarrow> (('v, 'h, 'd) state, unit) prog" where
  "stmt_shaded L =
     bindp load_df (\<lambda>t.
     bindp (hv_Points L t) (\<lambda>p.
     bindp (datashade L p) (\<lambda>h.
     bindp (opts L h [(''width'', OInt 800), (''height'', OInt 600), (''bgcolor'', OStr ''black'')])
       store_shaded)))"

definition stmt_doc :: "('v, 'h, 'd) hvlib \<Rightarrow> (('v, 'h, 'd) state, unit) prog" where
  "stmt_doc L =
     bindp (hv_renderer ''bokeh'') (\<lambda>r.
     bindp load_shaded (\<lambda>h.
     bindp (server_doc L r h) store_doc))"

definition stmt_title :: "(('v, 'h, 'd) state, unit) prog" where
  "stmt_title = set_doc_title ''HoloViews Bokeh App''"

definition script :: "('v, 'h, 'd) hvlib \<Rightarrow> (('v, 'h, 'd) state, unit) prog" where
  "script L = run_stmts [stmt_extension L, stmt_df, stmt_shaded L, stmt_doc L, stmt_title]"

definition run :: "('v, 'h, 'd) hvlib \<Rightarrow> (path \<Rightarrow> 'v entry option) \<Rightarrow> (exn + unit) \<times> ('v, 'h, 'd) state" where
  "run L f = script L (init f)"

subsection \<open>A concrete library and two filesystems\<close>

text \<open>
  HoloViews objects are written as the text of the expression that built them; the
  document a renderer returns carries bokeh's default title.
\<close>

definition example_lib :: "(int, string, string) hvlib" where
  "example_lib = \<lparr>
     lib_load_backend = (\<lambda>name. if name = ''bokeh'' then Inr () else Inl ''no such backend''),
     lib_Points = (\<lambda>t. if length (columns t) = 2 then Inr ''Points'' else Inl ''bad dimensions''),
     lib_datashade = (\<lambda>h. Inr (''datashade('' @ h @ '')'')),
     lib_opts = (\<lambda>h plot. Inr (h @ ''.opts'')),
     lib_server_doc = (\<lambda>r h. Inr \<lparr>title = ''Bokeh Application'', body = h\<rparr>)\<rparr>"

definition taxi_table :: "int table" where
  "taxi_table = \<lparr>
     columns = [''pickup_x'', ''dropoff_x'', ''dropoff_y''],
     partitions =
       [[[''pickup_x'' \<mapsto> 1, ''dropoff_x'' \<mapsto> 2, ''dropoff_y'' \<mapsto> 3],
         [''pickup_x'' \<mapsto> 4, ''dropoff_x'' \<mapsto> 5, ''dropoff_y'' \<mapsto> 6]],
        [[''pickup_x'' \<mapsto> 7, ''dropoff_x'' \<mapsto> 8, ''dropoff_y'' \<mapsto> 9]]]\<rparr>"

definition example_fs :: "path \<Rightarrow> int entry option" where
  "example_fs = [''../data/nyc_taxi_hours.parq/'' \<mapsto> Dataset taxi_table]"

definition empty_fs :: "path \<Rightarrow> int entry option" where
  "empty_fs = Map.empty"

definition other_fs :: "path \<Rightarrow> int entry option" where
  "other_fs = [''../data/nyc_taxi_hours.parq/'' \<mapsto> Dataset taxi_table, ''../data/other.parq/'' \<mapsto> Malformed]"

section \<open>Properties of the script\<close>

subsection \<open>Unfolding rules and facts about whole runs\<close>

lemmas call_defs = hv_extension_def hv_renderer_def read_parquet_def getitem_def persist_def
  hv_Points_def datashade_def opts_def server_doc_def store_df_def load_df_def store_shaded_def
  load_shaded_def store_doc_def set_doc_title_def logged_def lib_result_def bindp_def
lemmas stmt_defs = stmt_extension_def stmt_df_def stmt_shaded_def stmt_doc_def stmt_title_def
lemmas run_defs = run_def script_def init_def
lemmas example_defs = example_lib_def example_fs_def empty_fs_def taxi_table_def select_columns_def

text \<open>
  A list of statements can be cut anywhere: the second part runs from the state the first
  part left, unless the first part raised.
\<close>

lemma run_stmts_append:
  "run_stmts (xs @ ys) s =
     (case run_stmts xs s of (Inl e, s') \<Rightarrow> (Inl e, s') | (Inr u, s') \<Rightarrow> run_stmts ys s')"
  by (induction xs arbitrary: s) (auto split: prod.splits sum.splits)

lemma script_split:
  "script L s =
     (case run_stmts [stmt_extension L, stmt_df] s of
        (Inl e, s') \<Rightarrow> (Inl e, s')
      | (Inr u, s') \<Rightarrow> run_stmts [stmt_shaded L, stmt_doc L, stmt_title] s')"
  using run_stmts_append [of "[stmt_extension L, stmt_df]" "[stmt_shaded L, stmt_doc L, stmt_title]" s]
  by (simp add: script_def)

text \<open>
  Whatever the library and the filesystem do, the calls of a run are an initial segment of
  the ten calls of the script, in the order of the source.
\<close>

lemma run_trace_prefix:
  "prefix (trace (snd (run L f)))
     [Ev_extension ''bokeh'', Ev_read_parquet ''../data/nyc_taxi_hours.parq/'',
      Ev_getitem [''dropoff_x'', ''dropoff_y''], Ev_persist, Ev_Points, Ev_datashade,
      Ev_opts [(''width'', OInt 800), (''height'', OInt 600), (''bgcolor'', OStr ''black'')],
      Ev_renderer ''bokeh'', Ev_server_doc, Ev_set_title ''HoloViews Bokeh App'']"
  by (auto simp add: run_defs stmt_defs call_defs split: sum.splits option.splits entry.splits prod.splits if_splits)

lemma run_completes_iff:
  "fst (run L f) = Inr () \<longleftrightarrow> trace (snd (run L f)) =
     [Ev_extension ''bokeh'', Ev_read_parquet ''../data/nyc_taxi_hours.parq/'',
      Ev_getitem [''dropoff_x'', ''dropoff_y''], Ev_persist, Ev_Points, Ev_datashade,
      Ev_opts [(''width'', OInt 800), (''height'', OInt 600), (''bgcolor'', OStr ''black'')],
      Ev_renderer ''bokeh'', Ev_server_doc, Ev_set_title ''HoloViews Bokeh App'']"
  by (auto simp add: run_defs stmt_defs call_defs split: sum.splits option.splits entry.splits prod.splits if_splits)

lemma run_trace_distinct: "distinct (trace (snd (run L f)))"
  by (auto simp add: run_defs stmt_defs call_defs split: sum.splits option.splits entry.splits prod.splits if_splits)

subsection \<open>Column selection\<close>

lemma select_columns_present:
  assumes "set names \<subseteq> set (columns t)"
  shows "select_columns t names =
     Inr \<lparr>columns = names, partitions = map (map (\<lambda>r. r |` set names)) (partitions t)\<rparr>"
proof -
  have "filter (\<lambda>n. n \<notin> set (columns t)) names = []"
    using assms by (auto simp: filter_empty_conv)
  then show ?thesis by (simp add: select_columns_def)
qed

lemma nrows_select:
  "nrows \<lparr>columns = names, partitions = map (map g) (partitions t)\<rparr> = nrows t"
  by (simp add: nrows_def comp_def)

lemma wf_select:
  assumes "wf_table t" "set names \<subseteq> set (columns t)"
  shows "wf_table \<lparr>columns = names, partitions = map (map (\<lambda>r. r |` set names)) (partitions t)\<rparr>"
  using assms unfolding wf_table_def
  by (auto simp: list_all_iff)

subsection \<open>The title of the document\<close>



subsection \<open>Loading and column selection\<close>

text \<open>
  Claim C2. If the dataset path holds a well-formed table that has the columns
  \<open>dropoff_x\<close> and \<open>dropoff_y\<close>, the statement that binds \<open>df\<close> completes and
  binds a table whose columns are exactly these two (in the list of columns and in every
  row) and whose number of rows is that of the source.
\<close>

theorem load_selects_columns:
  assumes "fs s ''../data/nyc_taxi_hours.parq/'' = Some (Dataset src)"
    and "wf_table src"
    and "''dropoff_x'' \<in> set (columns src)"
    and "''dropoff_y'' \<in> set (columns src)"
  shows "\<exists>t. fst (stmt_df s) = Inr () \<and> df (snd (stmt_df s)) = Some t \<and>
             columns t = [''dropoff_x'', ''dropoff_y''] \<and>
             set (columns t) = {''dropoff_x'', ''dropoff_y''} \<and>
             wf_table t \<and> nrows t = nrows src"
proof -
  let ?names = "[''dropoff_x'', ''dropoff_y'']"
  let ?t = "\<lparr>columns = ?names, partitions = map (map (\<lambda>r. r |` set ?names)) (partitions src)\<rparr>"
  have sub: "set ?names \<subseteq> set (columns src)" using assms(3,4) by simp
  have sel: "select_columns src ?names = Inr ?t"
    by (rule select_columns_present [OF sub])
  have res: "stmt_df s = (Inr (), (logged Ev_persist (logged (Ev_getitem ?names)
               (logged (Ev_read_parquet ''../data/nyc_taxi_hours.parq/'') s)))\<lparr>df := Some ?t\<rparr>)"
    using assms(1) sel
    by (simp add: stmt_df_def bindp_def read_parquet_def getitem_def persist_def store_df_def)
  have wf: "wf_table ?t" by (rule wf_select [OF assms(2) sub])
  have nr: "nrows ?t = nrows src"
    by (rule nrows_select)
  have "fst (stmt_df s) = Inr ()" using res by simp
  moreover have "df (snd (stmt_df s)) = Some ?t" using res by simp
  moreover have "columns ?t = ?names" by simp
  moreover have "set (columns ?t) = {''dropoff_x'', ''dropoff_y''}" by simp
  ultimately show ?thesis using wf nr by blast
qed

text \<open>
  The example table has a third column and three rows in two partitions.
\<close>

theorem load_selects_columns_witness:
  "fs (init example_fs :: (int, string, string) state) ''../data/nyc_taxi_hours.parq/'' = Some (Dataset taxi_table) \<and>
   wf_table taxi_table \<and>
   ''dropoff_x'' \<in> set (columns taxi_table) \<and> ''dropoff_y'' \<in> set (columns taxi_table) \<and>
   nrows taxi_table = 3 \<and>
   (\<exists>t. fst (stmt_df (init example_fs :: (int, string, string) state)) = Inr () \<and>
        df (snd (stmt_df (init example_fs :: (int, string, string) state))) = Some t \<and>
        columns t = [''dropoff_x'', ''dropoff_y''] \<and>
        set (columns t) = {''dropoff_x'', ''dropoff_y''} \<and>
        wf_table t \<and> nrows t = nrows taxi_table)"
proof -
  have h1: "fs (init example_fs :: (int, string, string) state) ''../data/nyc_taxi_hours.parq/'' = Some (Dataset taxi_table)"
    by (simp add: init_def example_fs_def)
  have h2: "wf_table taxi_table"
    by (auto simp add: wf_table_def taxi_table_def)
  have h3: "''dropoff_x'' \<in> set (columns taxi_table)" by (simp add: taxi_table_def)
  have h4: "''dropoff_y'' \<in> set (columns taxi_table)" by (simp add: taxi_table_def)
  have h5: "nrows taxi_table = 3" by (simp add: nrows_def taxi_table_def)
  show ?thesis using h1 h2 h3 h4 h5 load_selects_columns [OF h1 h2 h3 h4] by simp
qed

subsection \<open>Configuration of the rasterization\<close>

text \<open>
  Claim C3. For every table bound to \<open>df\<close>, a rasterization statement that completes
  has built the points from that table, datashaded them, and attached the plot options
  width 800, height 600 and background colour black; the object with these options is
  what \<open>shaded\<close> names, and these three calls are all the statement did.
\<close>

theorem rasterizer_configuration:
  assumes "df s = Some t" and "fst (stmt_shaded L s) = Inr ()"
  shows "\<exists>p h sh. lib_Points L t = Inr p \<and> lib_datashade L p = Inr h \<and>
           lib_opts L h [(''width'', OInt 800), (''height'', OInt 600), (''bgcolor'', OStr ''black'')] = Inr sh \<and>
           shaded (snd (stmt_shaded L s)) = Some sh \<and>
           trace (snd (stmt_shaded L s)) = trace s @
             [Ev_Points, Ev_datashade,
              Ev_opts [(''width'', OInt 800), (''height'', OInt 600), (''bgcolor'', OStr ''black'')]]"
  using assms
  by (auto simp add: stmt_shaded_def call_defs split: sum.splits option.splits prod.splits)

text \<open>
  The statement run on the state that loading the example dataset leaves.
\<close>

theorem rasterizer_configuration_witness:
  "df (snd (stmt_df (init example_fs :: (int, string, string) state))) = Some \<lparr>columns = [''dropoff_x'', ''dropoff_y''],
       partitions = map (map (\<lambda>r. r |` {''dropoff_x'', ''dropoff_y''})) (partitions taxi_table)\<rparr> \<and>
   fst (stmt_shaded example_lib (snd (stmt_df (init example_fs)))) = Inr () \<and>
   shaded (snd (stmt_shaded example_lib (snd (stmt_df (init example_fs))))) = Some ''datashade(Points).opts''"
proof -
  let ?s = "snd (stmt_df (init example_fs :: (int, string, string) state))"
  let ?t = "\<lparr>columns = [''dropoff_x'', ''dropoff_y''],
       partitions = map (map (\<lambda>r. r |` {''dropoff_x'', ''dropoff_y''})) (partitions taxi_table)\<rparr>"
  have h1: "df ?s = Some ?t"
    by (simp add: run_defs stmt_defs call_defs example_defs)
  have h2: "fst (stmt_shaded example_lib ?s) = Inr ()"
    by (simp add: run_defs stmt_defs call_defs example_defs)
  have h3: "shaded (snd (stmt_shaded example_lib ?s)) = Some ''datashade(Points).opts''"
    by (simp add: run_defs stmt_defs call_defs example_defs)
  show ?thesis using h1 h2 h3 rasterizer_configuration [OF h1 h2] by simp
qed

subsection \<open>A missing or malformed dataset\<close>

lemma stmt_df_missing:
  assumes "fs s ''../data/nyc_taxi_hours.parq/'' = None \<or> fs s ''../data/nyc_taxi_hours.parq/'' = Some Malformed"
  shows "stmt_df s = (Inl DataAccessError, logged (Ev_read_parquet ''../data/nyc_taxi_hours.parq/'') s)"
  using assms by (auto simp add: stmt_df_def bindp_def read_parquet_def)

lemma run_missing:
  fixes L :: "('v, 'h, 'd) hvlib"
  assumes "f ''../data/nyc_taxi_hours.parq/'' = None \<or> f ''../data/nyc_taxi_hours.parq/'' = Some Malformed"
  shows "run L f =
     (case lib_load_backend L ''bokeh'' of
        Inl msg \<Rightarrow> (Inl (LibraryError msg), logged (Ev_extension ''bokeh'') (init f))
      | Inr u \<Rightarrow> (Inl DataAccessError,
          logged (Ev_read_parquet ''../data/nyc_taxi_hours.parq/'')
            ((logged (Ev_extension ''bokeh'') (init f))\<lparr>backends := [''bokeh'']\<rparr>)))"
proof (cases "lib_load_backend L ''bokeh''")
  case (Inl msg)
  then show ?thesis
    by (simp add: run_def script_def stmt_extension_def hv_extension_def)
next
  case (Inr u)
  let ?s1 = "(logged (Ev_extension ''bokeh'') (init f :: ('v, 'h, 'd) state))\<lparr>backends := [''bokeh'']\<rparr>"
  have ext: "stmt_extension L (init f) = (Inr (), ?s1)"
    using Inr by (simp add: stmt_extension_def hv_extension_def init_def logged_def)
  have m: "fs ?s1 ''../data/nyc_taxi_hours.parq/'' = None \<or>
           fs ?s1 ''../data/nyc_taxi_hours.parq/'' = Some Malformed"
    using assms by (simp add: init_def logged_def)
  show ?thesis using Inr ext stmt_df_missing [OF m]
    by (simp add: run_def script_def)
qed

text \<open>
  Claim C4. If the dataset path is missing or malformed, the loading statement raises
  \<open>DataAccessError\<close>. Nothing handles it: the run ends with that exception right after
  the call of \<open>read_parquet\<close> (or earlier, with the exception of the extension, if
  loading the extension itself failed), it does not complete, no document is bound, and
  neither the renderer lookup nor \<open>server_doc\<close> is ever called.
\<close>

theorem missing_dataset_fails:
  assumes "f ''../data/nyc_taxi_hours.parq/'' = None \<or> f ''../data/nyc_taxi_hours.parq/'' = Some Malformed"
  shows "fst (stmt_df (s\<lparr>fs := f\<rparr>)) = Inl DataAccessError \<and>
         (case lib_load_backend L ''bokeh'' of
            Inl msg \<Rightarrow> fst (run L f) = Inl (LibraryError msg)
          | Inr u \<Rightarrow> fst (run L f) = Inl DataAccessError \<and>
               trace (snd (run L f)) = [Ev_extension ''bokeh'', Ev_read_parquet ''../data/nyc_taxi_hours.parq/'']) \<and>
         fst (run L f) \<noteq> Inr () \<and>
         doc (snd (run L f)) = None \<and>
         Ev_renderer ''bokeh'' \<notin> set (trace (snd (run L f))) \<and>
         Ev_server_doc \<notin> set (trace (snd (run L f)))"
proof -
  have m: "fs (s\<lparr>fs := f\<rparr>) ''../data/nyc_taxi_hours.parq/'' = None \<or>
           fs (s\<lparr>fs := f\<rparr>) ''../data/nyc_taxi_hours.parq/'' = Some Malformed"
    using assms by simp
  have a: "fst (stmt_df (s\<lparr>fs := f\<rparr>)) = Inl DataAccessError"
    using stmt_df_missing [OF m] by simp
  show ?thesis
    unfolding run_missing [where f = f and L = L, OF assms]
    using a by (simp add: init_def logged_def split: sum.splits)
qed

text \<open>
  The empty filesystem with the example library, whose extension loads.
\<close>

theorem missing_dataset_fails_witness:
  "(empty_fs ''../data/nyc_taxi_hours.parq/'' = None \<or> empty_fs ''../data/nyc_taxi_hours.parq/'' = Some Malformed) \<and>
   lib_load_backend example_lib ''bokeh'' = Inr () \<and>
   fst (run example_lib empty_fs) = Inl DataAccessError \<and>
   doc (snd (run example_lib empty_fs)) = None \<and>
   Ev_server_doc \<notin> set (trace (snd (run example_lib empty_fs)))"
proof -
  have h: "empty_fs ''../data/nyc_taxi_hours.parq/'' = None \<or> empty_fs ''../data/nyc_taxi_hours.parq/'' = Some Malformed"
    by (simp add: empty_fs_def)
  have b: "lib_load_backend example_lib ''bokeh'' = Inr ()"
    by (simp add: example_lib_def)
  show ?thesis using h b missing_dataset_fails [where f = empty_fs and L = example_lib and s = "init empty_fs :: (int, string, string) state", OF h]
    by simp
qed

subsection \<open>Order of the steps\<close>

text \<open>
  Claim C5 as stated fails for a run that an exception ends. On the empty filesystem the
  run stops in \<open>read_parquet\<close>: rendering and title assignment are executed zero
  times, not once.
\<close>

theorem every_step_once_counterexample:
  "fst (run example_lib empty_fs) = Inl DataAccessError \<and>
   trace (snd (run example_lib empty_fs)) = [Ev_extension ''bokeh'', Ev_read_parquet ''../data/nyc_taxi_hours.parq/''] \<and>
   count_list (trace (snd (run example_lib empty_fs))) Ev_server_doc \<noteq> 1 \<and>
   count_list (trace (snd (run example_lib empty_fs))) (Ev_set_title ''HoloViews Bokeh App'') \<noteq> 1"
  by (simp add: run_defs stmt_defs call_defs example_defs)

text \<open>
  Claim C5, amended. The calls of every run are an initial segment of the fixed sequence
  extension, loading (\<open>read_parquet\<close>, column selection, \<open>persist\<close>), rasterization
  (\<open>Points\<close>, \<open>datashade\<close>, \<open>opts\<close>), rendering (renderer lookup,
  \<open>server_doc\<close>), title assignment; no call occurs twice in that sequence and the title
  assignment comes after \<open>server_doc\<close>. The run completes exactly when its calls are
  the whole sequence.
\<close>

theorem steps_in_script_order:
  "prefix (trace (snd (run L f)))
     [Ev_extension ''bokeh'', Ev_read_parquet ''../data/nyc_taxi_hours.parq/'',
      Ev_getitem [''dropoff_x'', ''dropoff_y''], Ev_persist, Ev_Points, Ev_datashade,
      Ev_opts [(''width'', OInt 800), (''height'', OInt 600), (''bgcolor'', OStr ''black'')],
      Ev_renderer ''bokeh'', Ev_server_doc, Ev_set_title ''HoloViews Bokeh App''] \<and>
   (fst (run L f) = Inr () \<longleftrightarrow> trace (snd (run L f)) =
     [Ev_extension ''bokeh'', Ev_read_parquet ''../data/nyc_taxi_hours.parq/'',
      Ev_getitem [''dropoff_x'', ''dropoff_y''], Ev_persist, Ev_Points, Ev_datashade,
      Ev_opts [(''width'', OInt 800), (''height'', OInt 600), (''bgcolor'', OStr ''black'')],
      Ev_renderer ''bokeh'', Ev_server_doc, Ev_set_title ''HoloViews Bokeh App'']) \<and>
   distinct (trace (snd (run L f)))"
  using run_trace_prefix [of L f] run_completes_iff [of L f] run_trace_distinct [of L f] by blast

text \<open>
  The completing run of the example makes all ten calls.
\<close>

theorem steps_in_script_order_witness:
  "fst (run example_lib example_fs) = Inr () \<and>
   trace (snd (run example_lib example_fs)) =
     [Ev_extension ''bokeh'', Ev_read_parquet ''../data/nyc_taxi_hours.parq/'',
      Ev_getitem [''dropoff_x'', ''dropoff_y''], Ev_persist, Ev_Points, Ev_datashade,
      Ev_opts [(''width'', OInt 800), (''height'', OInt 600), (''bgcolor'', OStr ''black'')],
      Ev_renderer ''bokeh'', Ev_server_doc, Ev_set_title ''HoloViews Bokeh App'']"
proof -
  have h: "fst (run example_lib example_fs) = Inr ()"
    by (simp add: run_defs stmt_defs call_defs example_defs)
  show ?thesis using h steps_in_script_order [of example_lib example_fs] by blast
qed

subsection \<open>The dataset after it is loaded\<close>

lemma stmt_shaded_frame:
  "df (snd (stmt_shaded L s)) = df s \<and> fs (snd (stmt_shaded L s)) = fs s \<and>
   backends (snd (stmt_shaded L s)) = backends s"
  by (auto simp add: stmt_shaded_def call_defs split: sum.splits option.splits prod.splits)

lemma stmt_doc_frame:
  "df (snd (stmt_doc L s)) = df s \<and> fs (snd (stmt_doc L s)) = fs s \<and>
   backends (snd (stmt_doc L s)) = backends s"
  by (auto simp add: stmt_doc_def call_defs split: sum.splits option.splits prod.splits)

lemma stmt_title_frame:
  "df (snd (stmt_title s)) = df s \<and> fs (snd (stmt_title s)) = fs s \<and>
   backends (snd (stmt_title s)) = backends s"
  by (auto simp add: stmt_title_def call_defs split: sum.splits option.splits prod.splits)

lemma rest_frame:
  "df (snd (run_stmts [stmt_shaded L, stmt_doc L, stmt_title] s)) = df s"
proof -
  obtain r1 s1 where a: "stmt_shaded L s = (r1, s1)" by (cases "stmt_shaded L s")
  obtain r2 s2 where b: "stmt_doc L s1 = (r2, s2)" by (cases "stmt_doc L s1")
  obtain r3 s3 where c: "stmt_title s2 = (r3, s3)" by (cases "stmt_title s2")
  have "df s1 = df s" using stmt_shaded_frame [of L s] a by simp
  moreover have "df s2 = df s1" using stmt_doc_frame [of L s1] b by simp
  moreover have "df s3 = df s2" using stmt_title_frame [of s2] c by simp
  ultimately show ?thesis using a b c
    by (cases r1; cases r2; cases r3) simp_all
qed

text \<open>
  Claim C8. None of the statements after the loading statement changes what \<open>df\<close>
  names: not rasterization, not rendering, not the title assignment, nor the three in
  sequence, from any state. At the end of every run \<open>df\<close> is what the first two
  statements left.
\<close>

theorem dataset_not_modified_after_load:
  "df (snd (stmt_shaded L s)) = df s \<and>
   df (snd (stmt_doc L s)) = df s \<and>
   df (snd (stmt_title s)) = df s \<and>
   df (snd (run_stmts [stmt_shaded L, stmt_doc L, stmt_title] s)) = df s \<and>
   df (snd (run L f)) = df (snd (run_stmts [stmt_extension L, stmt_df] (init f)))"
proof -
  have "df (snd (run L f)) = df (snd (run_stmts [stmt_extension L, stmt_df] (init f)))"
    unfolding run_def script_split [of L "init f"]
    using rest_frame [of L]
    by (auto split: prod.splits sum.splits)
  then show ?thesis
    using stmt_shaded_frame [of L s] stmt_doc_frame [of L s] stmt_title_frame [of s] rest_frame [of L s]
    by simp
qed

subsection \<open>Filesystem input\<close>

lemma run_reads_only_dataset:
  "Ev_read_parquet p \<in> set (trace (snd (run L f))) \<Longrightarrow> p = ''../data/nyc_taxi_hours.parq/''"
  using set_mono_prefix [OF run_trace_prefix [of L f]] by auto

lemma run_keeps_fs: "fs (snd (run L f)) = f"
  by (auto simp add: run_defs stmt_defs call_defs split: sum.splits option.splits entry.splits prod.splits if_splits)

lemma run_depends_on_dataset_only:
  "f ''../data/nyc_taxi_hours.parq/'' = f' ''../data/nyc_taxi_hours.parq/'' \<Longrightarrow>
   run L f' = (fst (run L f), (snd (run L f))\<lparr>fs := f'\<rparr>)"
  by (auto simp add: run_defs stmt_defs call_defs split: sum.splits option.splits entry.splits prod.splits if_splits)

lemma run_reads_dataset:
  "lib_load_backend L ''bokeh'' = Inr () \<Longrightarrow>
   Ev_read_parquet ''../data/nyc_taxi_hours.parq/'' \<in> set (trace (snd (run L f)))"
  by (auto simp add: run_defs stmt_defs call_defs split: sum.splits option.splits entry.splits prod.splits if_splits)

text \<open>
  What the run does after the extension has loaded is decided by what the filesystem holds
  at the dataset path: nothing or a malformed entry raises \<open>DataAccessError\<close>, a table
  without one of the two columns raises the \<open>KeyError\<close> of the selection, and otherwise
  \<open>df\<close> names the selection of that very table.
\<close>

lemma run_outcome_from_dataset:
  "lib_load_backend L ''bokeh'' = Inr () \<Longrightarrow>
   (case f ''../data/nyc_taxi_hours.parq/'' of
      None \<Rightarrow> fst (run L f) = Inl DataAccessError
    | Some Malformed \<Rightarrow> fst (run L f) = Inl DataAccessError
    | Some (Dataset src) \<Rightarrow>
        (case select_columns src [''dropoff_x'', ''dropoff_y''] of
           Inl e \<Rightarrow> fst (run L f) = Inl e
         | Inr t \<Rightarrow> df (snd (run L f)) = Some t))"
  by (auto simp add: run_defs stmt_defs call_defs split: sum.splits option.splits entry.splits prod.splits if_splits)

text \<open>
  Claim C9. The only path a run reads is \<open>../data/nyc_taxi_hours.parq/\<close>, and it
  is read whenever the extension has loaded. The read is real: the outcome follows what
  the filesystem holds at this path (a missing or malformed entry ends the run with
  \<open>DataAccessError\<close>, a dataset ends up, column-selected, in \<open>df\<close>). It is the only
  input: two filesystems that agree on this path give the same outcome and the same final
  state (up to the filesystem itself). And the run leaves the filesystem as it found it.
\<close>

theorem dataset_is_only_filesystem_input:
  "(\<forall>p. Ev_read_parquet p \<in> set (trace (snd (run L f))) \<longrightarrow> p = ''../data/nyc_taxi_hours.parq/'') \<and>
   (lib_load_backend L ''bokeh'' = Inr () \<longrightarrow>
      Ev_read_parquet ''../data/nyc_taxi_hours.parq/'' \<in> set (trace (snd (run L f)))) \<and>
   (lib_load_backend L ''bokeh'' = Inr () \<longrightarrow>
      (case f ''../data/nyc_taxi_hours.parq/'' of
         None \<Rightarrow> fst (run L f) = Inl DataAccessError
       | Some Malformed \<Rightarrow> fst (run L f) = Inl DataAccessError
       | Some (Dataset src) \<Rightarrow>
           (case select_columns src [''dropoff_x'', ''dropoff_y''] of
              Inl e \<Rightarrow> fst (run L f) = Inl e
            | Inr t \<Rightarrow> df (snd (run L f)) = Some t))) \<and>
   (f ''../data/nyc_taxi_hours.parq/'' = f' ''../data/nyc_taxi_hours.parq/'' \<longrightarrow>
      run L f' = (fst (run L f), (snd (run L f))\<lparr>fs := f'\<rparr>)) \<and>
   fs (snd (run L f)) = f"
  using run_reads_only_dataset [of _ L f] run_reads_dataset [of L f]
    run_outcome_from_dataset [of L f]
    run_depends_on_dataset_only [of f f' L] run_keeps_fs [of L f]
  by blast

text \<open>
  Two filesystems that hold the same dataset and differ on another path give the same run;
  the empty filesystem, which differs at the dataset path, gives another outcome.
\<close>

theorem dataset_is_only_filesystem_input_witness:
  "Ev_read_parquet ''../data/nyc_taxi_hours.parq/'' \<in> set (trace (snd (run example_lib example_fs))) \<and>
   lib_load_backend example_lib ''bokeh'' = Inr () \<and>
   example_fs ''../data/nyc_taxi_hours.parq/'' = other_fs ''../data/nyc_taxi_hours.parq/'' \<and>
   example_fs ''../data/other.parq/'' \<noteq> other_fs ''../data/other.parq/'' \<and>
   run example_lib other_fs = (fst (run example_lib example_fs), (snd (run example_lib example_fs))\<lparr>fs := other_fs\<rparr>) \<and>
   fs (snd (run example_lib example_fs)) = example_fs \<and>
   df (snd (run example_lib example_fs)) =
     Some \<lparr>columns = [''dropoff_x'', ''dropoff_y''],
           partitions = map (map (\<lambda>r. r |` {''dropoff_x'', ''dropoff_y''})) (partitions taxi_table)\<rparr> \<and>
   empty_fs ''../data/nyc_taxi_hours.parq/'' = None \<and>
   fst (run example_lib empty_fs) = Inl DataAccessError"
proof -
  have b: "lib_load_backend example_lib ''bokeh'' = Inr ()"
    by (simp add: example_lib_def)
  have e: "example_fs ''../data/nyc_taxi_hours.parq/'' = other_fs ''../data/nyc_taxi_hours.parq/''"
    by (simp add: example_fs_def other_fs_def)
  have d: "example_fs ''../data/other.parq/'' \<noteq> other_fs ''../data/other.parq/''"
    by (simp add: example_fs_def other_fs_def)
  have p: "example_fs ''../data/nyc_taxi_hours.parq/'' = Some (Dataset taxi_table)"
    by (simp add: example_fs_def)
  have c: "select_columns taxi_table [''dropoff_x'', ''dropoff_y''] =
     Inr \<lparr>columns = [''dropoff_x'', ''dropoff_y''],
          partitions = map (map (\<lambda>r. r |` {''dropoff_x'', ''dropoff_y''})) (partitions taxi_table)\<rparr>"
    by (simp add: select_columns_def taxi_table_def)
  have n: "empty_fs ''../data/nyc_taxi_hours.parq/'' = None"
    by (simp add: empty_fs_def)
  have one: "df (snd (run example_lib example_fs)) =
     Some \<lparr>columns = [''dropoff_x'', ''dropoff_y''],
           partitions = map (map (\<lambda>r. r |` {''dropoff_x'', ''dropoff_y''})) (partitions taxi_table)\<rparr>"
    using b p c dataset_is_only_filesystem_input [of example_lib example_fs other_fs] by simp
  have two: "fst (run example_lib empty_fs) = Inl DataAccessError"
    using b n dataset_is_only_filesystem_input [of example_lib empty_fs empty_fs] by simp
  show ?thesis
    using b e d n one two dataset_is_only_filesystem_input [of example_lib example_fs other_fs]
    by blast
qed

subsection \<open>Initialisation of the rendering extension\<close>

lemma select_columns_raises:
  "select_columns t names = Inl e \<Longrightarrow> \<exists>n. e = KeyError n"
  by (auto simp add: select_columns_def split: list.splits)

lemma run_never_not_initialized: "fst (run L f) \<noteq> Inl (NotInitialized b)"
  by (auto simp add: run_defs stmt_defs call_defs dest: select_columns_raises
      split: sum.splits option.splits entry.splits prod.splits if_splits)

text \<open>
  No run reads a name before it is bound.
\<close>

lemma run_never_name_error: "fst (run L f) \<noteq> Inl (NameError n)"
  by (auto simp add: run_defs stmt_defs call_defs dest: select_columns_raises
      split: sum.splits option.splits entry.splits prod.splits if_splits)

lemma run_renderer_after_extension:
  "Ev_renderer b \<in> set (trace (snd (run L f))) \<Longrightarrow>
   b \<in> set (backends (snd (run L f))) \<and>
   Ev_extension b \<in> set (takeWhile (\<lambda>e. e \<noteq> Ev_renderer b) (trace (snd (run L f))))"
  by (auto simp add: run_defs stmt_defs call_defs split: sum.splits option.splits entry.splits prod.splits if_splits)

text \<open>
  Claim C10. No run ends with the failure \<open>NotInitialized\<close>: whenever the renderer of
  a backend is looked up, the extension of that backend was called earlier in the run and
  the backend is in the registry.
\<close>

theorem renderer_extension_initialized:
  "fst (run L f) \<noteq> Inl (NotInitialized b) \<and>
   (Ev_renderer b \<in> set (trace (snd (run L f))) \<longrightarrow>
      b \<in> set (backends (snd (run L f))) \<and>
      Ev_extension b \<in> set (takeWhile (\<lambda>e. e \<noteq> Ev_renderer b) (trace (snd (run L f)))))"
  using run_never_not_initialized [of L f b] run_renderer_after_extension [of b L f]
  by blast

text \<open>
  The completing run of the example looks up the bokeh renderer.
\<close>

theorem renderer_extension_initialized_witness:
  "Ev_renderer ''bokeh'' \<in> set (trace (snd (run example_lib example_fs))) \<and>
   ''bokeh'' \<in> set (backends (snd (run example_lib example_fs))) \<and>
   Ev_extension ''bokeh'' \<in> set (takeWhile (\<lambda>e. e \<noteq> Ev_renderer ''bokeh'') (trace (snd (run example_lib example_fs)))) \<and>
   fst (run example_lib example_fs) \<noteq> Inl (NotInitialized ''bokeh'')"
proof -
  have h: "Ev_renderer ''bokeh'' \<in> set (trace (snd (run example_lib example_fs)))"
    by (simp add: run_defs stmt_defs call_defs example_defs)
  show ?thesis
    using h renderer_extension_initialized [of example_lib example_fs "''bokeh''"]
    by blast
qed

end
